theory Spec2Isabelle
  imports Complex_Main
begin

section \<open>Arrays, errors and the collaborators of the graph space\<close>

text \<open>
  A graph on \<open>n\<close> nodes is an \<open>n \<times> n\<close> adjacency matrix, kept as the list of its rows.
  The arrays that \<open>graphspace.py\<close> documents for its inputs have shape \<open>[..., n, n]\<close>:
  a single matrix (rank 2) or a batch of matrices (rank 3). Gathering no matrix at all,
  \<open>gs.array([])\<close>, gives neither: it is the array of shape \<open>(0,)\<close>, of rank 1 and
  without entries, kept apart as \<open>EmptyArray\<close>. Distances and membership tests come
  back as a scalar or as a vector with one entry per graph of the batch.
  Entries are taken from a semiring, so every sum and product is exact; rounding of
  floating-point numbers is not part of this development.
\<close>

type_synonym 'a matrix = "'a list list"

datatype 'a ndarray = Matrix "'a matrix" | Batch "'a matrix list" | EmptyArray

datatype 'a result_array = Scalar 'a | Vector "'a list"

datatype error =
    ValueError string
  | IndexError
  | TypeError
  | UnboundLocalError string

text \<open>\<open>array.ndim\<close>, equal to \<open>len(array.shape)\<close>, and \<open>len(array)\<close>.\<close>

fun ndim :: "'a ndarray \<Rightarrow> nat" where
  "ndim (Matrix M) = 2"
| "ndim (Batch Ms) = 3"
| "ndim EmptyArray = 1"

fun len :: "'a ndarray \<Rightarrow> nat" where
  "len (Matrix M) = length M"
| "len (Batch Ms) = length Ms"
| "len EmptyArray = 0"

text \<open>The shape of a matrix kept as a list of rows.\<close>

definition ncols :: "'a matrix \<Rightarrow> nat" where
  "ncols M = (case M of [] \<Rightarrow> 0 | row # rest \<Rightarrow> length row)"

definition is_matrix :: "nat \<Rightarrow> nat \<Rightarrow> 'a matrix \<Rightarrow> bool" where
  "is_matrix r c M = (length M = r \<and> list_all (\<lambda>row. length row = c) M)"

text \<open>Sequencing of fallible steps: the first exception raised is the one that propagates.\<close>

definition bindE :: "error + 'a \<Rightarrow> ('a \<Rightarrow> error + 'b) \<Rightarrow> error + 'b" where
  "bindE r f = (case r of Inl e \<Rightarrow> Inl e | Inr v \<Rightarrow> f v)"

fun sequenceE :: "(error + 'a) list \<Rightarrow> error + 'a list" where
  "sequenceE [] = Inr []"
| "sequenceE (r # rs) =
     (case r of
        Inl e \<Rightarrow> Inl e
      | Inr v \<Rightarrow> (case sequenceE rs of Inl e \<Rightarrow> Inl e | Inr vs \<Rightarrow> Inr (v # vs)))"

text \<open>Indexing a Python sequence or the first axis of an array: out of range raises.\<close>

definition getitem :: "'a list \<Rightarrow> nat \<Rightarrow> error + 'a" where
  "getitem xs i = (if i < length xs then Inr (xs ! i) else Inl IndexError)"

subsection \<open>The numeric backend \<open>gs\<close>\<close>

text \<open>
  The backend module \<open>geomstats.backend\<close> is not among the source files. The four
  functions below are the ones \<open>permute\<close> calls.
\<close>

text \<open>
  Modelled from the spec: \<open>gs.array\<close> is missing; on a list of matrices it gives the
  spec's "batch in the same order as input", and on the empty list the array without
  entries.
\<close>

definition gs_array :: "'a matrix list \<Rightarrow> 'a ndarray" where
  "gs_array arrays = (if arrays = [] then EmptyArray else Batch arrays)"

text \<open>
  Modelled from the spec: \<open>gs.ones\<close> is missing; it gives the "one-entries" that are
  scattered, \<open>n\<close> ones of the element type of the graph.
\<close>

definition gs_ones :: "nat \<Rightarrow> 'a::semiring_1 list" where
  "gs_ones n = replicate n 1"

text \<open>
  Modelled from the spec: \<open>gs.array_from_sparse\<close> is missing; the spec has the
  permutation matrix built "by scattering one-entries at \<open>(i, p[i])\<close>". The array of shape
  \<open>target_shape\<close> holds at each coordinate the sum of the data scattered there; the
  coordinates must be as many as the data and lie inside the shape.
\<close>

definition array_from_sparse ::
  "(nat \<times> nat) list \<Rightarrow> 'a::semiring_1 list \<Rightarrow> nat \<times> nat \<Rightarrow> error + 'a matrix" where
  "array_from_sparse indices data target_shape =
     (case target_shape of (r, c) \<Rightarrow>
        if length indices \<noteq> length data then
          Inl (ValueError ''array_from_sparse: indices and data differ in length'')
        else if list_ex (\<lambda>(i, j). r \<le> i \<or> c \<le> j) indices then
          Inl (ValueError ''array_from_sparse: index exceeds target shape'')
        else
          Inr (map (\<lambda>i. map (\<lambda>j.
                 sum_list (map (\<lambda>k. if indices ! k = (i, j) then data ! k else 0)
                               [0..<length indices]))
               [0..<c]) [0..<r]))"

text \<open>
  Modelled from the spec: \<open>gs.transpose\<close> is missing; it gives the \<open>P\<^sup>t\<close> of the spec's
  \<open>P\<cdot>A\<cdot>P\<^sup>t\<close>, the matrix whose row \<open>j\<close> is the column \<open>j\<close> of its argument.
\<close>

definition gs_transpose :: "'a matrix \<Rightarrow> 'a matrix" where
  "gs_transpose M = map (\<lambda>j. map (\<lambda>row. row ! j) M) [0..<ncols M]"

text \<open>
  Modelled from the spec: \<open>gs.matmul\<close> is missing; it is the matrix product \<open>A\<cdot>B\<close> of
  the spec's "associative multiply", defined when the rows of \<open>A\<close> are as long as \<open>B\<close>
  has rows and raising otherwise.
\<close>

definition gs_matmul :: "'a::semiring_1 matrix \<Rightarrow> 'a matrix \<Rightarrow> error + 'a matrix" where
  "gs_matmul A B =
     (if list_all (\<lambda>row. length row = length B) A
         \<and> list_all (\<lambda>row. length row = ncols B) B
      then Inr (map (\<lambda>row. map (\<lambda>j.
                  sum_list (map (\<lambda>k. row ! k * B ! k ! j) [0..<length B]))
                [0..<ncols B]) A)
      else Inl (ValueError ''matmul: shapes are not aligned''))"

subsection \<open>The total space\<close>

text \<open>
  \<open>GraphSpace.__init__\<close> receives the class of the total space and instantiates it
  with \<open>(nodes, nodes)\<close>; the graph space uses its \<open>mul\<close> and \<open>belongs\<close>.
\<close>

record 'a total_space =
  ts_mul :: "'a matrix \<Rightarrow> 'a matrix \<Rightarrow> 'a matrix \<Rightarrow> error + 'a matrix"
  ts_belongs :: "'a ndarray \<Rightarrow> real \<Rightarrow> bool result_array"

text \<open>
  Modelled from the spec: the class \<open>Matrices\<close> of \<open>geomstats.geometry.matrices\<close> is
  missing. Its \<open>mul(A, B, C)\<close> is the spec's "associative three-argument multiply
  \<open>A\<cdot>B\<cdot>C\<close>", computed from the left; its \<open>belongs\<close> is the spec's shape check ("every
  graph accepted by this space has adjacency shape exactly \<open>(nodes, nodes)\<close>"), one
  boolean per graph of a batch, in which the tolerance plays no part; the array
  without entries has no such shape.
\<close>

definition Matrices_mul ::
  "'a::semiring_1 matrix \<Rightarrow> 'a matrix \<Rightarrow> 'a matrix \<Rightarrow> error + 'a matrix" where
  "Matrices_mul A B C = bindE (gs_matmul A B) (\<lambda>AB. gs_matmul AB C)"

fun Matrices_belongs :: "nat \<Rightarrow> nat \<Rightarrow> 'a ndarray \<Rightarrow> real \<Rightarrow> bool result_array" where
  "Matrices_belongs m n (Matrix M) atol = Scalar (is_matrix m n M)"
| "Matrices_belongs m n (Batch Ms) atol = Vector (map (is_matrix m n) Ms)"
| "Matrices_belongs m n EmptyArray atol = Scalar False"

definition Matrices :: "nat \<Rightarrow> nat \<Rightarrow> ('a::semiring_1) total_space" where
  "Matrices m n = \<lparr>ts_mul = Matrices_mul, ts_belongs = Matrices_belongs m n\<rparr>"

section \<open>Graph points and the vectorising decorator\<close>

text \<open>The class \<open>Graph\<close>: an adjacency matrix and an optional parameter vector.\<close>

record 'a Graph =
  adj :: "'a matrix"
  param :: "'a list option"

text \<open>
  The second argument of a decorated method is an array, a \<open>Graph\<close> or a list of
  \<open>Graph\<close>s. \<open>_graph_vectorize\<close> passes an array through, replaces a \<open>Graph\<close> by its
  adjacency matrix and a list of \<open>Graph\<close>s by the array of their adjacency matrices.
\<close>

datatype 'a graph_arg = Arr "'a ndarray" | GraphPoint "'a Graph" | GraphList "'a Graph list"

fun graph_vectorize :: "'a graph_arg \<Rightarrow> 'a ndarray" where
  "graph_vectorize (Arr a) = a"
| "graph_vectorize (GraphPoint g) = Matrix (adj g)"
| "graph_vectorize (GraphList gl) = gs_array (map adj gl)"

section \<open>The graph space and the permutation action\<close>

record 'a graph_space =
  nodes :: nat
  total_space :: "'a total_space"

definition GraphSpace :: "nat \<Rightarrow> (nat \<Rightarrow> nat \<Rightarrow> 'a total_space) \<Rightarrow> 'a graph_space" where
  "GraphSpace n total_space_class = \<lparr>nodes = n, total_space = total_space_class n n\<rparr>"

definition belongs :: "'a graph_space \<Rightarrow> 'a graph_arg \<Rightarrow> real \<Rightarrow> bool result_array" where
  "belongs S graphs atol = ts_belongs (total_space S) (graph_vectorize graphs) atol"

text \<open>
  The permutation argument is one permutation (for a single graph) or a sequence of
  permutations (for a batch). The loop variable \<open>p\<close> of \<open>permute\<close> holds one element of
  the sequence iterated: the whole argument when the graph is single (the code wraps
  it in a one-element list), a row of a sequence of permutations, or a bare entry when
  a flat permutation is iterated against a batch.
\<close>

datatype perm_arg = Perm "nat list" | Perms "nat list list"

datatype perm_item = Entry nat | Item perm_arg

fun enumerate_perm :: "perm_arg \<Rightarrow> perm_item list" where
  "enumerate_perm (Perm p) = map Entry p"
| "enumerate_perm (Perms ps) = map (\<lambda>p. Item (Perm p)) ps"

text \<open>
  The test of line 232, \<open>gs.all(gs.array(nodes) == gs.array(p))\<close>: the scalar \<open>nodes\<close>
  is compared with every entry of \<open>p\<close>, and all comparisons must hold.
\<close>

fun shortcut_test :: "nat \<Rightarrow> perm_item \<Rightarrow> bool" where
  "shortcut_test n (Entry k) = (n = k)"
| "shortcut_test n (Item (Perm p)) = list_all (\<lambda>k. n = k) p"
| "shortcut_test n (Item (Perms ps)) = list_all (list_all (\<lambda>k. n = k)) ps"

text \<open>
  \<open>list(zip(list(range(nodes)), p))\<close>: \<open>zip\<close> raises on an integer; rows paired with a
  node are no coordinates, which the scatter rejects.
\<close>

fun zip_indices :: "nat \<Rightarrow> perm_item \<Rightarrow> error + (nat \<times> nat) list" where
  "zip_indices n (Entry k) = Inl TypeError"
| "zip_indices n (Item (Perm p)) = Inr (zip [0..<n] p)"
| "zip_indices n (Item (Perms ps)) =
     (if n = 0 \<or> ps = [] then Inr []
      else Inl (ValueError ''array_from_sparse: indices are not integers''))"

text \<open>The body of the loop of \<open>permute\<close> for the pair at position \<open>i\<close>.\<close>

definition permute_step ::
  "('a::semiring_1) graph_space \<Rightarrow> 'a matrix list \<Rightarrow> nat \<Rightarrow> perm_item \<Rightarrow> error + 'a matrix" where
  "permute_step S graph_to_permute i p =
     (if shortcut_test (nodes S) p then getitem graph_to_permute i
      else
        bindE (getitem graph_to_permute i) (\<lambda>g.
        bindE (zip_indices (nodes S) p) (\<lambda>indices.
        bindE (array_from_sparse indices (gs_ones (nodes S)) (nodes S, nodes S))
          (\<lambda>permutation_matrix.
             ts_mul (total_space S) permutation_matrix g (gs_transpose permutation_matrix)))))"

fun permute_loop ::
  "('a::semiring_1) graph_space \<Rightarrow> 'a matrix list \<Rightarrow> nat \<Rightarrow> perm_item list
     \<Rightarrow> error + 'a matrix list" where
  "permute_loop S graph_to_permute i [] = Inr []"
| "permute_loop S graph_to_permute i (p # rest) =
     bindE (permute_step S graph_to_permute i p) (\<lambda>r.
     bindE (permute_loop S graph_to_permute (Suc i) rest) (\<lambda>rs. Inr (r # rs)))"

text \<open>
  The method before decoration: a graph of rank below 3 is wrapped together with its
  permutation into one-element lists, and the first result is returned; a batch is
  walked along the permutations and the results are gathered into an array. The array
  without entries has rank below 3 and takes the path of a single graph: the shortcut
  returns it as it is, and otherwise the multiplication of the total space receives it
  as a matrix without rows.
\<close>

fun permute_array ::
  "('a::semiring_1) graph_space \<Rightarrow> 'a ndarray \<Rightarrow> perm_arg \<Rightarrow> error + 'a ndarray" where
  "permute_array S (Matrix G) permutation =
     bindE (permute_loop S [G] 0 [Item permutation]) (\<lambda>result.
     bindE (getitem result 0) (\<lambda>r. Inr (Matrix r)))"
| "permute_array S (Batch Gs) permutation =
     bindE (permute_loop S Gs 0 (enumerate_perm permutation)) (\<lambda>result. Inr (gs_array result))"
| "permute_array S EmptyArray permutation =
     (if shortcut_test (nodes S) (Item permutation) then Inr EmptyArray
      else bindE (permute_step S [[]] 0 (Item permutation)) (\<lambda>r. Inr (Matrix r)))"

definition permute ::
  "('a::semiring_1) graph_space \<Rightarrow> 'a graph_arg \<Rightarrow> perm_arg \<Rightarrow> error + 'a ndarray" where
  "permute S graph_to_permute permutation =
     permute_array S (graph_vectorize graph_to_permute) permutation"

section \<open>Matchers\<close>

text \<open>
  Modelled from the spec: \<open>gs.stack\<close> is missing; it gathers the copies of the base
  that are "broadcast against every target" into a batch. The array libraries behind the
  backend refuse to stack an empty list, which is kept here.
\<close>

definition gs_stack :: "'b list \<Rightarrow> error + 'b list" where
  "gs_stack arrays =
     (if arrays = [] then Inl (ValueError ''need at least one array to stack'')
      else Inr arrays)"

text \<open>
  \<open>gs.linalg.quadratic_assignment\<close> is the external solver of the spec, "taking two
  equal-shape square matrices and an objective-direction flag (maximize), returning a
  permutation". It is a parameter of everything that calls it; it returns a node
  correspondence or fails, and the matcher always passes the flag \<open>maximize\<close>.
  Modelled from the spec: entered with the array without entries as an operand, which
  is no square matrix, it raises.
\<close>

type_synonym 'a solver = "'a matrix \<Rightarrow> 'a matrix \<Rightarrow> error + nat list"

text \<open>
  \<open>faq_matching\<close> tests the ranks in the order: both 3, both 2, base below target,
  and raises otherwise. The equations below are these tests in the same order, the
  third one once for each base of lower rank; a list comprehension stops at the first
  call that raises.
\<close>

fun faq_matching :: "'a solver \<Rightarrow> 'a ndarray \<Rightarrow> 'a ndarray \<Rightarrow> error + perm_arg" where
  "faq_matching quadratic_assignment (Batch base_graph) (Batch graph_to_permute) =
     bindE (sequenceE (map (\<lambda>(x, y). quadratic_assignment x y)
                           (zip base_graph graph_to_permute)))
       (\<lambda>ps. Inr (Perms ps))"
| "faq_matching quadratic_assignment (Matrix base_graph) (Matrix graph_to_permute) =
     bindE (quadratic_assignment base_graph graph_to_permute) (\<lambda>p. Inr (Perm p))"
| "faq_matching quadratic_assignment (Matrix base_graph) (Batch graph_to_permute) =
     bindE (gs_stack (replicate (length graph_to_permute) base_graph)) (\<lambda>stacked.
     bindE (sequenceE (map (\<lambda>(x, y). quadratic_assignment x y)
                           (zip stacked graph_to_permute)))
       (\<lambda>ps. Inr (Perms ps)))"
| "faq_matching quadratic_assignment EmptyArray (Matrix graph_to_permute) =
     bindE (gs_stack (replicate (length graph_to_permute) (EmptyArray :: 'a ndarray)))
       (\<lambda>stacked. Inl (ValueError ''quadratic_assignment: the operands must be square matrices''))"
| "faq_matching quadratic_assignment EmptyArray (Batch graph_to_permute) =
     bindE (gs_stack (replicate (length graph_to_permute) (EmptyArray :: 'a ndarray)))
       (\<lambda>stacked. Inl (ValueError ''quadratic_assignment: the operands must be square matrices''))"
| "faq_matching quadratic_assignment base_graph graph_to_permute =
     Inl (ValueError
       ''Align a set of graphs to one graphs,Pass the single graphs as base_graph'')"

definition id_matching :: "nat \<Rightarrow> 'a ndarray \<Rightarrow> 'a ndarray \<Rightarrow> error + perm_arg" where
  "id_matching self_nodes base_graph graph_to_permute =
     (let l_base = ndim base_graph; l_obj = ndim graph_to_permute in
      if (l_base = 3 \<and> l_obj = 3) \<or> l_base < l_obj then
        Inr (Perms (replicate (len graph_to_permute) [0..<self_nodes]))
      else if l_base = 2 \<and> l_obj = 2 then
        Inr (Perm [0..<self_nodes])
      else
        Inl (ValueError
          (''The method can align a set of graphs to one graphs,'' @
           ''but the single graphs should be passed as base_graph'')))"

section \<open>The quotient metric\<close>

text \<open>
  \<open>GraphSpaceGeometry.__init__\<close> receives the class of the total-space metric and
  instantiates it with \<open>(nodes, nodes)\<close>; the geometry uses its \<open>dist\<close> and its
  \<open>geodesic\<close>, whose curve representation \<open>'c\<close> is the metric's own.
\<close>

record ('a, 'c) metric =
  metric_dist :: "'a ndarray \<Rightarrow> 'a ndarray \<Rightarrow> error + 'a result_array"
  metric_geodesic :: "'a ndarray \<Rightarrow> 'a ndarray \<Rightarrow> error + 'c"

record ('a, 'c) geometry =
  space :: "'a graph_space"
  total_space_metric :: "('a, 'c) metric"

definition GraphSpaceGeometry ::
  "'a graph_space \<Rightarrow> (nat \<Rightarrow> nat \<Rightarrow> ('a, 'c) metric) \<Rightarrow> ('a, 'c) geometry" where
  "GraphSpaceGeometry sp total_space_metric_class =
     \<lparr>space = sp, total_space_metric = total_space_metric_class (nodes sp) (nodes sp)\<rparr>"

text \<open>
  Modelled from the spec: the class \<open>MatricesMetric\<close> of \<open>geomstats.geometry.matrices\<close>
  is missing. Its distance is the spec's "Frobenius/total-space metric", the root of
  the sum of the squared entry differences of two matrices of one shape; a single
  matrix is compared with every matrix of a batch, two batches of equal length are
  compared pairwise ("distance(p, q) -> scalar-or-batch"); the array without entries is
  no matrix and cannot be compared. Its geodesic returns a curve
  "between base_point and the permuted end_point", kept here as the two end points
  handed to the constructor.
\<close>

definition frobenius_dist :: "real matrix \<Rightarrow> real matrix \<Rightarrow> error + real" where
  "frobenius_dist A B =
     (if map length A = map length B then
        Inr (sqrt (sum_list (map (\<lambda>(ra, rb). sum_list (map (\<lambda>(x, y). (x - y)\<^sup>2) (zip ra rb)))
                                 (zip A B))))
      else Inl (ValueError ''operands could not be broadcast together''))"

fun MatricesMetric_dist :: "real ndarray \<Rightarrow> real ndarray \<Rightarrow> error + real result_array" where
  "MatricesMetric_dist (Matrix A) (Matrix B) =
     bindE (frobenius_dist A B) (\<lambda>d. Inr (Scalar d))"
| "MatricesMetric_dist (Matrix A) (Batch Bs) =
     bindE (sequenceE (map (\<lambda>B. frobenius_dist A B) Bs)) (\<lambda>ds. Inr (Vector ds))"
| "MatricesMetric_dist (Batch As) (Matrix B) =
     bindE (sequenceE (map (\<lambda>A. frobenius_dist A B) As)) (\<lambda>ds. Inr (Vector ds))"
| "MatricesMetric_dist (Batch As) (Batch Bs) =
     (if length As = length Bs then
        bindE (sequenceE (map (\<lambda>(A, B). frobenius_dist A B) (zip As Bs)))
          (\<lambda>ds. Inr (Vector ds))
      else Inl (ValueError ''operands could not be broadcast together''))"
| "MatricesMetric_dist point_a point_b =
     Inl (ValueError ''operands could not be broadcast together'')"

datatype 'a curve = Geodesic "'a ndarray" "'a ndarray"

definition MatricesMetric :: "nat \<Rightarrow> nat \<Rightarrow> (real, real curve) metric" where
  "MatricesMetric m n =
     \<lparr>metric_dist = MatricesMetric_dist,
      metric_geodesic = (\<lambda>initial_point end_point. Inr (Geodesic initial_point end_point))\<rparr>"

text \<open>
  The two \<open>if\<close> statements that assign \<open>perm\<close>: the second assignment overrides the
  first, and no assignment leaves the variable unbound, which the next read of \<open>perm\<close>
  turns into an \<open>UnboundLocalError\<close>.
\<close>

definition select_matcher ::
  "'a solver \<Rightarrow> nat \<Rightarrow> string \<Rightarrow> 'a ndarray \<Rightarrow> 'a ndarray \<Rightarrow> (error + perm_arg) option" where
  "select_matcher quadratic_assignment self_nodes matcher base_graph graph_to_permute =
     (let perm = (if matcher = ''FAQ''
                  then Some (faq_matching quadratic_assignment base_graph graph_to_permute)
                  else None)
      in if matcher = ''ID''
         then Some (id_matching self_nodes base_graph graph_to_permute)
         else perm)"

text \<open>
  \<open>dist\<close> under \<open>_multiple_input_vectorize\<close>: both graph arguments are turned into
  arrays, the argument of lower rank becomes the base, the matcher runs, and the
  arguments of the final call are evaluated from the left, so that an unbound \<open>perm\<close>
  is met before \<open>permute\<close> or the metric is entered.
\<close>

definition dist_graphs ::
  "'a solver \<Rightarrow> ('a::semiring_1, 'c) geometry \<Rightarrow> 'a graph_arg \<Rightarrow> 'a graph_arg \<Rightarrow> string
     \<Rightarrow> error + 'a result_array" where
  "dist_graphs quadratic_assignment self graph_a graph_b matcher =
     (let a = graph_vectorize graph_a; b = graph_vectorize graph_b;
          base_graph = (if ndim a > ndim b then b else a);
          graph_to_permute = (if ndim a > ndim b then a else b)
      in case select_matcher quadratic_assignment (nodes (space self)) matcher
                base_graph graph_to_permute of
           None \<Rightarrow> Inl (UnboundLocalError ''perm'')
         | Some match \<Rightarrow>
             bindE match (\<lambda>perm.
             bindE (permute (space self) (Arr graph_to_permute) perm) (\<lambda>permuted.
             metric_dist (total_space_metric self) base_graph permuted)))"

text \<open>\<open>geodesic\<close> under the same decorator: the matcher runs on the arguments as given.\<close>

definition geodesic ::
  "'a solver \<Rightarrow> ('a::semiring_1, 'c) geometry \<Rightarrow> 'a graph_arg \<Rightarrow> 'a graph_arg \<Rightarrow> string
     \<Rightarrow> error + 'c" where
  "geodesic quadratic_assignment self base_point end_point matcher =
     (let base = graph_vectorize base_point; endp = graph_vectorize end_point
      in case select_matcher quadratic_assignment (nodes (space self)) matcher base endp of
           None \<Rightarrow> Inl (UnboundLocalError ''perm'')
         | Some match \<Rightarrow>
             bindE match (\<lambda>perm.
             bindE (permute (space self) (Arr endp) perm) (\<lambda>permuted.
             metric_geodesic (total_space_metric self) base permuted)))"

section \<open>Notions used to state the properties\<close>

text \<open>A permutation of \<open>{0, \<dots>, n - 1}\<close> as a sequence: \<open>n\<close> distinct entries below \<open>n\<close>.\<close>

definition is_permutation :: "nat \<Rightarrow> nat list \<Rightarrow> bool" where
  "is_permutation n p = (length p = n \<and> distinct p \<and> list_all (\<lambda>k. k < n) p)"

text \<open>The 0/1 matrix with a one at \<open>(i, p[i])\<close> in every row \<open>i\<close>.\<close>

definition permutation_matrix :: "nat \<Rightarrow> nat list \<Rightarrow> 'a::semiring_1 matrix" where
  "permutation_matrix n p = map (\<lambda>i. map (\<lambda>j. if p ! i = j then 1 else 0) [0..<n]) [0..<n]"

text \<open>The matrix whose entry \<open>(i, j)\<close> is the entry \<open>(p[i], p[j])\<close> of \<open>G\<close>.\<close>

definition conjugate :: "nat \<Rightarrow> nat list \<Rightarrow> 'a matrix \<Rightarrow> 'a matrix" where
  "conjugate n p G = map (\<lambda>i. map (\<lambda>j. G ! (p ! i) ! (p ! j)) [0..<n]) [0..<n]"

text \<open>
  Two ways of composing permutations given as sequences. \<open>compose_then\<close> follows the
  spec's words, "applying \<open>p\<close> then relabelling by \<open>q\<close>": node \<open>i\<close> goes to \<open>p[i]\<close>, which
  \<open>q\<close> relabels to \<open>q[p[i]]\<close>. \<open>reindex\<close> reads the sequence \<open>p\<close> at the positions that
  \<open>q\<close> lists: position \<open>i\<close> holds \<open>p[q[i]]\<close>.
\<close>

definition compose_then :: "nat list \<Rightarrow> nat list \<Rightarrow> nat list" where
  "compose_then p q = map (\<lambda>k. q ! k) p"

definition reindex :: "nat list \<Rightarrow> nat list \<Rightarrow> nat list" where
  "reindex p q = map (\<lambda>k. p ! k) q"

text \<open>
  The alignment procedure of the spec, steps 2 and 3 of \<open>dist\<close>: the selected matcher
  runs on \<open>(base_graph, graph_to_permute)\<close> and the second graph is permuted by the
  permutation found.
\<close>

definition alignment ::
  "'a solver \<Rightarrow> ('a::semiring_1) graph_space \<Rightarrow> string \<Rightarrow> 'a ndarray \<Rightarrow> 'a ndarray
     \<Rightarrow> error + 'a ndarray" where
  "alignment quadratic_assignment S matcher base_graph graph_to_permute =
     (case select_matcher quadratic_assignment (nodes S) matcher base_graph graph_to_permute of
        None \<Rightarrow> Inl (UnboundLocalError ''perm'')
      | Some match \<Rightarrow> bindE match (\<lambda>perm. permute S (Arr graph_to_permute) perm))"




text \<open>
  A total space whose \<open>mul\<close> only records that it was entered; it makes visible
  whether \<open>permute\<close> multiplies.
\<close>

definition RecordingSpace :: "nat \<Rightarrow> nat \<Rightarrow> int total_space" where
  "RecordingSpace m n =
     \<lparr>ts_mul = (\<lambda>A B C. Inl (ValueError ''mul was called'')),
      ts_belongs = Matrices_belongs m n\<rparr>"

section \<open>Conjugation by a permutation matrix\<close>

text \<open>A sum over an interval with a single non-zero term.\<close>

lemma sum_list_delta:
  fixes f :: "nat \<Rightarrow> 'a::comm_monoid_add"
  shows "sum_list (map (\<lambda>k. if a = k then f k else 0) [0..<n]) = (if a < n then f a else 0)"
  by (simp add: interv_sum_list_conv_sum_set_nat)

lemma sum_list_delta':
  fixes f :: "nat \<Rightarrow> 'a::comm_monoid_add"
  shows "sum_list (map (\<lambda>k. if k = a then f k else 0) [0..<n]) = (if a < n then f a else 0)"
  by (simp add: interv_sum_list_conv_sum_set_nat)

lemma length_gs_ones: "length (gs_ones n) = n"
  by (simp add: gs_ones_def)

lemma array_from_sparse_permutation:
  assumes "length p = n" and "list_all (\<lambda>k. k < n) p"
  shows "array_from_sparse (zip [0..<n] p) (gs_ones n) (n, n) = Inr (permutation_matrix n p)"
proof -
  have inside: "\<not> list_ex (\<lambda>(i, j). n \<le> i \<or> n \<le> j) (zip [0..<n] p)"
  proof -
    have "i < n \<and> j < n" if "(i, j) \<in> set (zip [0..<n] p)" for i j
    proof -
      from that obtain k where "k < n" "k < length p" "[0..<n] ! k = i" "p ! k = j"
        by (auto simp: in_set_zip)
      with assms(2) show ?thesis by (auto simp: list_all_length)
    qed
    then show ?thesis by (fastforce simp: list_ex_iff)
  qed
  have entry: "sum_list (map (\<lambda>k. if zip [0..<n] p ! k = (i, j) then (gs_ones n :: 'a list) ! k else 0) [0..<n])
      = (if p ! i = j then 1 else 0)" if "i < n" for i j
  proof -
    have "map (\<lambda>k. if zip [0..<n] p ! k = (i, j) then (gs_ones n :: 'a list) ! k else 0) [0..<n]
        = map (\<lambda>k. if k = i then (if p ! k = j then 1 else 0) else 0) [0..<n]"
      using assms by (auto simp: gs_ones_def)
    then have "sum_list (map (\<lambda>k. if zip [0..<n] p ! k = (i, j) then (gs_ones n :: 'a list) ! k else 0) [0..<n])
        = sum_list (map (\<lambda>k. if k = i then (if p ! k = j then 1 else 0) else 0) [0..<n])"
      by (rule arg_cong)
    also have "\<dots> = (if p ! i = j then 1 else 0)"
      using that by (simp add: sum_list_delta')
    finally show ?thesis .
  qed
  show ?thesis
    using inside assms(1) entry
    by (simp add: array_from_sparse_def length_gs_ones permutation_matrix_def)
qed


lemma permutation_matrix_shape: "is_matrix n n (permutation_matrix n p)"
  by (simp add: is_matrix_def permutation_matrix_def list_all_iff)

lemma ncols_square: "is_matrix n n M \<Longrightarrow> ncols M = n"
  by (cases M) (auto simp: is_matrix_def ncols_def)

lemma gs_transpose_permutation:
  "gs_transpose (permutation_matrix n p :: 'a::semiring_1 matrix)
     = map (\<lambda>j. map (\<lambda>i. if p ! i = j then 1 else 0) [0..<n]) [0..<n]"
proof -
  have "ncols (permutation_matrix n p :: 'a matrix) = n"
    by (rule ncols_square) (rule permutation_matrix_shape)
  then show ?thesis
    by (simp add: gs_transpose_def) (simp add: permutation_matrix_def)
qed

lemma gs_matmul_permutation_left:
  fixes G :: "'a::semiring_1 matrix"
  assumes "is_matrix n n G" and "list_all (\<lambda>k. k < n) p" and "length p = n"
  shows "gs_matmul (permutation_matrix n p) G = Inr (map (\<lambda>i. G ! (p ! i)) [0..<n])"
proof -
  have cols: "ncols G = n" using assms(1) by (rule ncols_square)
  have len: "length G = n" and rows: "\<And>k. k < n \<Longrightarrow> length (G ! k) = n"
    using assms(1) by (auto simp: is_matrix_def list_all_length)
  have pi: "\<And>i. i < n \<Longrightarrow> p ! i < n"
    using assms(2,3) by (auto simp: list_all_length)
  have row: "map (\<lambda>j. sum_list (map (\<lambda>k. (permutation_matrix n p :: 'a matrix) ! i ! k * G ! k ! j) [0..<n])) [0..<n]
      = G ! (p ! i)" if "i < n" for i
  proof -
    have "sum_list (map (\<lambda>k. (permutation_matrix n p :: 'a matrix) ! i ! k * G ! k ! j) [0..<n])
        = G ! (p ! i) ! j" for j
    proof -
      have "map (\<lambda>k. (permutation_matrix n p :: 'a matrix) ! i ! k * G ! k ! j) [0..<n]
          = map (\<lambda>k. if p ! i = k then G ! k ! j else 0) [0..<n]"
        using that by (simp add: permutation_matrix_def)
      then have "sum_list (map (\<lambda>k. (permutation_matrix n p :: 'a matrix) ! i ! k * G ! k ! j) [0..<n])
          = sum_list (map (\<lambda>k. if p ! i = k then G ! k ! j else 0) [0..<n])"
        by (rule arg_cong)
      also have "\<dots> = G ! (p ! i) ! j"
        using pi [OF that] by (simp add: sum_list_delta)
      finally show ?thesis .
    qed
    then have "map (\<lambda>j. sum_list (map (\<lambda>k. (permutation_matrix n p :: 'a matrix) ! i ! k * G ! k ! j) [0..<n])) [0..<n]
        = map (\<lambda>j. G ! (p ! i) ! j) [0..<n]" by simp
    also have "\<dots> = G ! (p ! i)"
      using rows [OF pi [OF that]] map_nth [of "G ! (p ! i)"] by simp
    finally show ?thesis .
  qed
  have shape: "list_all (\<lambda>row. length row = length G) (permutation_matrix n p :: 'a matrix)"
    using len by (simp add: permutation_matrix_def list_all_iff)
  have shapeG: "list_all (\<lambda>row. length row = ncols G) G"
    using assms(1) cols by (simp add: is_matrix_def)
  have "gs_matmul (permutation_matrix n p) G
      = Inr (map (\<lambda>row. map (\<lambda>j. sum_list (map (\<lambda>k. row ! k * G ! k ! j) [0..<n])) [0..<n])
               (permutation_matrix n p))"
    using shape shapeG cols len by (simp add: gs_matmul_def)
  also have "map (\<lambda>row. map (\<lambda>j. sum_list (map (\<lambda>k. row ! k * G ! k ! j) [0..<n])) [0..<n])
               (permutation_matrix n p :: 'a matrix)
      = map (\<lambda>i. map (\<lambda>j. sum_list (map (\<lambda>k. (permutation_matrix n p :: 'a matrix) ! i ! k * G ! k ! j) [0..<n])) [0..<n]) [0..<n]"
    by (simp add: permutation_matrix_def)
  also have "\<dots> = map (\<lambda>i. G ! (p ! i)) [0..<n]"
    using row by simp
  finally show ?thesis .
qed


lemma gs_matmul_permutation_right:
  fixes M :: "'a::semiring_1 matrix"
  assumes "is_matrix n n M" and "list_all (\<lambda>k. k < n) p" and "length p = n"
  shows "gs_matmul M (gs_transpose (permutation_matrix n p))
           = Inr (map (\<lambda>row. map (\<lambda>j. row ! (p ! j)) [0..<n]) M)"
proof -
  define Pt :: "'a matrix" where "Pt = gs_transpose (permutation_matrix n p)"
  have Pt: "Pt = map (\<lambda>j. map (\<lambda>i. if p ! i = j then 1 else 0) [0..<n]) [0..<n]"
    unfolding Pt_def by (rule gs_transpose_permutation)
  have shape: "is_matrix n n Pt"
    by (simp add: Pt is_matrix_def list_all_iff)
  have cols: "ncols Pt = n" using shape by (rule ncols_square)
  have len: "length Pt = n" using shape by (simp add: is_matrix_def)
  have rowsM: "list_all (\<lambda>row. length row = n) M"
    using assms(1) by (simp add: is_matrix_def)
  have pj: "\<And>j. j < n \<Longrightarrow> p ! j < n"
    using assms(2,3) by (auto simp: list_all_length)
  have entry: "sum_list (map (\<lambda>k. row ! k * Pt ! k ! j) [0..<n]) = row ! (p ! j)"
    if "j < n" for j and row :: "'a list"
  proof -
    have "map (\<lambda>k. row ! k * Pt ! k ! j) [0..<n]
        = map (\<lambda>k. if p ! j = k then row ! k else 0) [0..<n]"
      using that by (simp add: Pt)
    then have "sum_list (map (\<lambda>k. row ! k * Pt ! k ! j) [0..<n])
        = sum_list (map (\<lambda>k. if p ! j = k then row ! k else 0) [0..<n])"
      by (rule arg_cong)
    also have "\<dots> = row ! (p ! j)"
      using pj [OF that] by (simp add: sum_list_delta)
    finally show ?thesis .
  qed
  have "gs_matmul M Pt
      = Inr (map (\<lambda>row. map (\<lambda>j. sum_list (map (\<lambda>k. row ! k * Pt ! k ! j) [0..<n])) [0..<n]) M)"
    using rowsM shape cols len by (simp add: gs_matmul_def is_matrix_def)
  also have "map (\<lambda>row. map (\<lambda>j. sum_list (map (\<lambda>k. row ! k * Pt ! k ! j) [0..<n])) [0..<n]) M
      = map (\<lambda>row. map (\<lambda>j. row ! (p ! j)) [0..<n]) M"
    using entry by simp
  finally show ?thesis unfolding Pt_def .
qed

lemma Matrices_mul_permutation:
  fixes G :: "'a::semiring_1 matrix"
  assumes "is_matrix n n G" and "list_all (\<lambda>k. k < n) p" and "length p = n"
  shows "Matrices_mul (permutation_matrix n p) G (gs_transpose (permutation_matrix n p))
           = Inr (conjugate n p G)"
proof -
  have pi: "\<And>i. i < n \<Longrightarrow> p ! i < n"
    using assms(2,3) by (auto simp: list_all_length)
  have rows: "\<And>k. k < n \<Longrightarrow> length (G ! k) = n"
    using assms(1) by (auto simp: is_matrix_def list_all_length)
  have shape: "is_matrix n n (map (\<lambda>i. G ! (p ! i)) [0..<n])"
    using pi rows by (simp add: is_matrix_def list_all_iff)
  show ?thesis
    using gs_matmul_permutation_left [OF assms] gs_matmul_permutation_right [OF shape assms(2,3)]
    by (simp add: Matrices_mul_def bindE_def conjugate_def)
qed

lemma conjugate_shape: "is_matrix n n (conjugate n p G)"
  by (simp add: is_matrix_def conjugate_def list_all_iff)

lemma shortcut_test_permutation:
  assumes "list_all (\<lambda>k. k < n) p" and "length p = n"
  shows "shortcut_test n (Item (Perm p)) = (n = 0)"
proof (cases p)
  case Nil
  with assms show ?thesis by simp
next
  case (Cons k rest)
  with assms show ?thesis by auto
qed

lemma permute_step_slow:
  assumes "\<not> shortcut_test (nodes S) (Item (Perm p))"
    and "list_all (\<lambda>k. k < nodes S) p" and "length p = nodes S" and "i < length Gs"
  shows "permute_step S Gs i (Item (Perm p))
           = ts_mul (total_space S) (permutation_matrix (nodes S) p) (Gs ! i)
               (gs_transpose (permutation_matrix (nodes S) p))"
  using assms array_from_sparse_permutation [OF assms(3,2), where ?'a = 'a]
  by (simp add: permute_step_def getitem_def bindE_def)

section \<open>The permutation action on a single graph\<close>

text \<open>The identity ordering is a permutation.\<close>

lemma is_permutation_identity: "is_permutation n [0..<n]"
  by (simp add: is_permutation_def list_all_iff)

lemma permute_single_step:
  "permute S (Arr (Matrix G)) perm = bindE (permute_step S [G] 0 (Item perm)) (\<lambda>r. Inr (Matrix r))"
  by (cases "permute_step S [G] 0 (Item perm)") (simp_all add: permute_def bindE_def getitem_def)

lemma permute_single_Matrices:
  fixes G :: "'a::semiring_1 matrix"
  assumes mul: "ts_mul (total_space S) = Matrices_mul" and n: "nodes S = n"
    and G: "is_matrix n n G" and p: "list_all (\<lambda>k. k < n) p" "length p = n"
  shows "permute S (Arr (Matrix G)) (Perm p) = Inr (Matrix (conjugate n p G))"
proof (cases "n = 0")
  case True
  then have "G = []" using G by (simp add: is_matrix_def)
  moreover have "shortcut_test (nodes S) (Item (Perm p))"
    using True p n by simp
  ultimately show ?thesis
    using True by (simp add: permute_single_step permute_step_def getitem_def bindE_def conjugate_def)
next
  case False
  then have slow: "\<not> shortcut_test (nodes S) (Item (Perm p))"
    using shortcut_test_permutation [OF p] n by simp
  have p': "list_all (\<lambda>k. k < nodes S) p" "length p = nodes S"
    using p n by simp_all
  have one: "0 < length [G]" by simp
  have "permute_step S [G] 0 (Item (Perm p))
      = Matrices_mul (permutation_matrix n p) G (gs_transpose (permutation_matrix n p))"
    using permute_step_slow [OF slow p' one] n mul by simp
  then show ?thesis
    using Matrices_mul_permutation [OF G p] by (simp add: permute_single_step bindE_def)
qed

lemma conjugate_identity:
  assumes "is_matrix n n G"
  shows "conjugate n [0..<n] G = G"
proof -
  have len: "length G = n" and rows: "\<And>i. i < n \<Longrightarrow> length (G ! i) = n"
    using assms by (auto simp: is_matrix_def list_all_length)
  have "map (\<lambda>j. G ! ([0..<n] ! i) ! ([0..<n] ! j)) [0..<n] = G ! i" if "i < n" for i
  proof -
    have "map (\<lambda>j. G ! ([0..<n] ! i) ! ([0..<n] ! j)) [0..<n] = map (\<lambda>j. G ! i ! j) [0..<n]"
      using that by simp
    also have "\<dots> = G ! i"
      using rows [OF that] map_nth [of "G ! i"] by simp
    finally show ?thesis .
  qed
  then have "conjugate n [0..<n] G = map (\<lambda>i. G ! i) [0..<n]"
    by (simp add: conjugate_def)
  also have "\<dots> = G"
    using len map_nth [of G] by simp
  finally show ?thesis .
qed

lemma conjugate_conjugate:
  assumes "list_all (\<lambda>k. k < n) q" and "length q = n"
  shows "conjugate n q (conjugate n p G) = conjugate n (reindex p q) G"
proof -
  have qi: "\<And>i. i < n \<Longrightarrow> q ! i < n"
    using assms by (auto simp: list_all_length)
  show ?thesis
    using qi assms(2) by (simp add: conjugate_def reindex_def)
qed

section \<open>The fixture on three nodes\<close>

text \<open>
  Claim C1, as the code has it. On three nodes, the path \<open>0 \<rightarrow> 1 \<rightarrow> 2\<close> with adjacency
  matrix \<open>[[0,1,0],[0,0,1],[0,0,0]]\<close> and the permutation \<open>[1,2,0]\<close> give
  \<open>P\<cdot>G\<cdot>P\<^sup>t = [[0,1,0],[0,0,0],[1,0,0]]\<close>: the edges \<open>0 \<rightarrow> 1\<close> and \<open>2 \<rightarrow> 0\<close>.
\<close>

theorem permute_fixture:
  "permute (GraphSpace 3 Matrices) (Arr (Matrix [[0, 1, 0], [0, 0, 1], [0, 0, 0 :: int]])) (Perm [1, 2, 0])
     = Inr (Matrix [[0, 1, 0], [0, 0, 0], [1, 0, 0]])"
  by code_simp

text \<open>
  Claim C1, as the spec states it, fails: the result is not the matrix
  \<open>[[0,0,1],[0,0,0],[1,0,0]]\<close>, whose edges \<open>0 \<rightarrow> 2\<close> and \<open>2 \<rightarrow> 0\<close> form a cycle that no
  relabelling of a path has.
\<close>

theorem permute_fixture_counterexample:
  "permute (GraphSpace 3 Matrices) (Arr (Matrix [[0, 1, 0], [0, 0, 1], [0, 0, 0 :: int]])) (Perm [1, 2, 0])
     \<noteq> Inr (Matrix [[0, 0, 1], [0, 0, 0], [1, 0, 0]])"
  by code_simp

section \<open>The shortcut of \<open>permute\<close>\<close>

text \<open>
  Claim C10. In a space with at least two nodes, for every permutation \<open>p\<close> of the
  nodes (the identity ordering included) the test "every entry of \<open>p\<close> equals \<open>nodes\<close>"
  is false; \<open>permute\<close> then builds the 0/1 permutation matrix and returns the product
  \<open>P\<cdot>G\<cdot>P\<^sup>t\<close> of the total space, for a single graph and for every position of a batch.
\<close>

theorem shortcut_never_taken:
  assumes "2 \<le> nodes S" and "is_permutation (nodes S) p"
  shows "\<not> shortcut_test (nodes S) (Item (Perm p))
    \<and> permute S (Arr (Matrix G)) (Perm p)
        = bindE (ts_mul (total_space S) (permutation_matrix (nodes S) p) G
                   (gs_transpose (permutation_matrix (nodes S) p)))
            (\<lambda>r. Inr (Matrix r))
    \<and> (\<forall>i < length Gs. permute_step S Gs i (Item (Perm p))
        = ts_mul (total_space S) (permutation_matrix (nodes S) p) (Gs ! i)
            (gs_transpose (permutation_matrix (nodes S) p)))"
proof -
  have range: "list_all (\<lambda>k. k < nodes S) p" "length p = nodes S"
    using assms(2) by (simp_all add: is_permutation_def)
  have slow: "\<not> shortcut_test (nodes S) (Item (Perm p))"
    using shortcut_test_permutation [OF range] assms(1) by simp
  have step: "permute_step S Hs i (Item (Perm p))
      = ts_mul (total_space S) (permutation_matrix (nodes S) p) (Hs ! i)
          (gs_transpose (permutation_matrix (nodes S) p))" if "i < length Hs" for i Hs
    using permute_step_slow [OF slow range that] .
  have single: "permute S (Arr (Matrix G)) (Perm p)
      = bindE (ts_mul (total_space S) (permutation_matrix (nodes S) p) G
                 (gs_transpose (permutation_matrix (nodes S) p))) (\<lambda>r. Inr (Matrix r))"
    using step [of 0 "[G]"] by (simp add: permute_single_step)
  show ?thesis using slow single step by blast
qed

text \<open>Claim C10 at the identity ordering of a space with two nodes.\<close>

theorem shortcut_never_taken_witness:
  "2 \<le> nodes (GraphSpace 2 Matrices :: int graph_space) \<and> is_permutation 2 [0, 1]
   \<and> \<not> shortcut_test 2 (Item (Perm [0, 1]))
   \<and> permute (GraphSpace 2 Matrices) (Arr (Matrix [[1, 2], [3, 4 :: int]])) (Perm [0, 1])
       = bindE (Matrices_mul (permutation_matrix 2 [0, 1]) [[1, 2], [3, 4]]
                  (gs_transpose (permutation_matrix 2 [0, 1])))
           (\<lambda>r. Inr (Matrix r))"
proof -
  have n: "nodes (GraphSpace 2 Matrices :: int graph_space) = 2"
    by (simp add: GraphSpace_def)
  have h1: "2 \<le> nodes (GraphSpace 2 Matrices :: int graph_space)"
    by (simp add: n)
  have h2: "is_permutation (nodes (GraphSpace 2 Matrices :: int graph_space)) [0, 1]"
    by (simp add: n is_permutation_def)
  have ts: "ts_mul (total_space (GraphSpace 2 Matrices :: int graph_space)) = Matrices_mul"
    by (simp add: GraphSpace_def Matrices_def)
  show ?thesis
    using shortcut_never_taken [OF h1 h2, of "[[1, 2], [3, 4]]" "[]"] h1 h2
    by (simp add: n ts)
qed

text \<open>
  Claim C3 fails on the code. The shortcut compares the entries of the permutation
  with the scalar \<open>nodes\<close>, not with the identity ordering, so the identity ordering
  \<open>[0, 1]\<close> of a space with two nodes does not take it: the permutation matrix is built
  and the multiplication of the total space is entered. A total space that records the
  call shows it.
\<close>

theorem identity_permutation_multiplies:
  "\<not> shortcut_test 2 (Item (Perm [0, 1]))
   \<and> permute (GraphSpace 2 RecordingSpace) (Arr (Matrix [[1, 2], [3, 4]])) (Perm [0, 1])
       = Inl (ValueError ''mul was called'')"
  by code_simp

section \<open>The action in the space of matrices\<close>

text \<open>
  With the total space \<open>Matrices\<close>, permuting a graph on \<open>n\<close> nodes by a sequence of \<open>n\<close>
  entries below \<open>n\<close> succeeds, and the entry \<open>(i, j)\<close> of the result is the entry
  \<open>(p[i], p[j])\<close> of the graph.
\<close>

lemma GraphSpace_Matrices_simps:
  "nodes (GraphSpace n Matrices) = n"
  "ts_mul (total_space (GraphSpace n Matrices)) = Matrices_mul"
  "ts_belongs (total_space (GraphSpace n Matrices)) = Matrices_belongs n n"
  by (simp_all add: GraphSpace_def Matrices_def)

lemma permute_Matrices:
  fixes G :: "'a::semiring_1 matrix"
  assumes "is_matrix n n G" and "list_all (\<lambda>k. k < n) p" and "length p = n"
  shows "permute (GraphSpace n Matrices) (Arr (Matrix G)) (Perm p) = Inr (Matrix (conjugate n p G))"
  using assms by (intro permute_single_Matrices) (simp_all add: GraphSpace_Matrices_simps)

lemma permute_identity_value:
  fixes G :: "'a::semiring_1 matrix"
  assumes "is_matrix n n G"
  shows "permute (GraphSpace n Matrices) (Arr (Matrix G)) (Perm [0..<n]) = Inr (Matrix G)"
proof -
  have "list_all (\<lambda>k. k < n) [0..<n]" "length [0..<n] = n"
    by (simp_all add: list_all_iff)
  from permute_Matrices [OF assms this] show ?thesis
    by (simp add: conjugate_identity [OF assms])
qed

lemma is_permutation_reindex:
  assumes "is_permutation n p" and "is_permutation n q"
  shows "is_permutation n (reindex p q)"
proof -
  have p: "length p = n" "distinct p" "\<And>i. i < n \<Longrightarrow> p ! i < n"
    using assms(1) by (auto simp: is_permutation_def list_all_length)
  have q: "length q = n" "distinct q" "\<And>i. i < n \<Longrightarrow> q ! i < n"
    using assms(2) by (auto simp: is_permutation_def list_all_length)
  have qset: "\<And>k. k \<in> set q \<Longrightarrow> k < n"
    using assms(2) by (auto simp: is_permutation_def list_all_iff)
  have "inj_on (\<lambda>k. p ! k) (set q)"
    using p(1,2) qset by (auto simp: inj_on_def nth_eq_iff_index_eq)
  then have "distinct (reindex p q)"
    using q(2) by (simp add: reindex_def distinct_map)
  moreover have "list_all (\<lambda>k. k < n) (reindex p q)"
    using p(3) q(1,3) by (simp add: reindex_def list_all_length)
  ultimately show ?thesis
    using q(1) by (simp add: is_permutation_def reindex_def)
qed

text \<open>
  Claim C9. A graph that belongs to the space (its adjacency matrix has shape
  \<open>(nodes, nodes)\<close>) is permuted, by any permutation of its nodes, into a graph that
  belongs to the space.
\<close>

theorem permute_preserves_membership:
  fixes G :: "'a::semiring_1 matrix"
  assumes "belongs (GraphSpace n Matrices) (Arr (Matrix G)) atol = Scalar True"
    and "is_permutation n p"
  shows "\<exists>H. permute (GraphSpace n Matrices) (Arr (Matrix G)) (Perm p) = Inr (Matrix H)
          \<and> belongs (GraphSpace n Matrices) (Arr (Matrix H)) atol = Scalar True"
proof -
  have G: "is_matrix n n G"
    using assms(1) by (simp add: belongs_def GraphSpace_Matrices_simps)
  have p: "list_all (\<lambda>k. k < n) p" "length p = n"
    using assms(2) by (simp_all add: is_permutation_def)
  have "permute (GraphSpace n Matrices) (Arr (Matrix G)) (Perm p) = Inr (Matrix (conjugate n p G))"
    using G p by (rule permute_Matrices)
  moreover have "belongs (GraphSpace n Matrices) (Arr (Matrix (conjugate n p G))) atol = Scalar True"
    by (simp add: belongs_def GraphSpace_Matrices_simps conjugate_shape)
  ultimately show ?thesis by blast
qed

text \<open>Claim C9 on a graph with two nodes whose nodes are exchanged.\<close>

theorem permute_preserves_membership_witness:
  "belongs (GraphSpace 2 Matrices) (Arr (Matrix [[1, 2], [3, 4 :: int]])) 0 = Scalar True
   \<and> is_permutation 2 [1, 0]
   \<and> (\<exists>H. permute (GraphSpace 2 Matrices) (Arr (Matrix [[1, 2], [3, 4 :: int]])) (Perm [1, 0])
             = Inr (Matrix H)
          \<and> belongs (GraphSpace 2 Matrices) (Arr (Matrix H)) 0 = Scalar True)"
proof -
  have h1: "belongs (GraphSpace 2 Matrices) (Arr (Matrix [[1, 2], [3, 4 :: int]])) 0 = Scalar True"
    by (simp add: belongs_def GraphSpace_Matrices_simps is_matrix_def)
  have h2: "is_permutation 2 [1, 0]"
    by (simp add: is_permutation_def)
  from permute_preserves_membership [OF h1 h2] h1 h2 show ?thesis by blast
qed

text \<open>
  Claim C7, as the code has it. Permuting a graph on \<open>n\<close> nodes by \<open>p\<close> and the result
  by \<open>q\<close> is permuting the graph once by the sequence whose position \<open>i\<close> holds
  \<open>p[q[i]]\<close>: the sequence \<open>p\<close> read at the positions \<open>q\<close>, itself a permutation. Both
  sides succeed and are equal entry for entry.
\<close>

theorem permute_twice:
  fixes G :: "'a::semiring_1 matrix"
  assumes "is_matrix n n G" and "is_permutation n p" and "is_permutation n q"
  shows "bindE (permute (GraphSpace n Matrices) (Arr (Matrix G)) (Perm p))
               (\<lambda>H. permute (GraphSpace n Matrices) (Arr H) (Perm q))
           = permute (GraphSpace n Matrices) (Arr (Matrix G)) (Perm (reindex p q))
         \<and> permute (GraphSpace n Matrices) (Arr (Matrix G)) (Perm (reindex p q))
           = Inr (Matrix (conjugate n (reindex p q) G))
         \<and> is_permutation n (reindex p q)"
proof -
  have p: "list_all (\<lambda>k. k < n) p" "length p = n"
    using assms(2) by (simp_all add: is_permutation_def)
  have q: "list_all (\<lambda>k. k < n) q" "length q = n"
    using assms(3) by (simp_all add: is_permutation_def)
  have r: "is_permutation n (reindex p q)"
    using assms(2,3) by (rule is_permutation_reindex)
  then have r': "list_all (\<lambda>k. k < n) (reindex p q)" "length (reindex p q) = n"
    by (simp_all add: is_permutation_def)
  have first: "permute (GraphSpace n Matrices) (Arr (Matrix G)) (Perm p)
      = Inr (Matrix (conjugate n p G))"
    using assms(1) p by (rule permute_Matrices)
  have second: "permute (GraphSpace n Matrices) (Arr (Matrix (conjugate n p G))) (Perm q)
      = Inr (Matrix (conjugate n q (conjugate n p G)))"
    using conjugate_shape q by (rule permute_Matrices)
  have direct: "permute (GraphSpace n Matrices) (Arr (Matrix G)) (Perm (reindex p q))
      = Inr (Matrix (conjugate n (reindex p q) G))"
    using assms(1) r' by (rule permute_Matrices)
  show ?thesis
    using first second direct r conjugate_conjugate [OF q, of p G]
    by (simp add: bindE_def)
qed

text \<open>Claim C7 as amended, on a graph with the single edge \<open>0 \<rightarrow> 1\<close>.\<close>

theorem permute_twice_witness:
  "is_matrix 3 3 [[0, 1, 0], [0, 0, 0], [0, 0, 0 :: int]]
   \<and> is_permutation 3 [1, 2, 0] \<and> is_permutation 3 [1, 0, 2]
   \<and> reindex [1, 2, 0] [1, 0, 2] = [2, 1, 0]
   \<and> bindE (permute (GraphSpace 3 Matrices) (Arr (Matrix [[0, 1, 0], [0, 0, 0], [0, 0, 0 :: int]]))
               (Perm [1, 2, 0]))
            (\<lambda>H. permute (GraphSpace 3 Matrices) (Arr H) (Perm [1, 0, 2]))
       = permute (GraphSpace 3 Matrices) (Arr (Matrix [[0, 1, 0], [0, 0, 0], [0, 0, 0 :: int]]))
           (Perm [2, 1, 0])"
proof -
  have h1: "is_matrix 3 3 [[0, 1, 0], [0, 0, 0], [0, 0, 0 :: int]]"
    by (simp add: is_matrix_def)
  have h2: "is_permutation 3 [1, 2, 0]" and h3: "is_permutation 3 [1, 0, 2]"
    by (simp_all add: is_permutation_def)
  have r: "reindex [1, 2, 0] [1, 0, 2] = [2, 1, 0]"
    by (simp add: reindex_def)
  from permute_twice [OF h1 h2 h3] h1 h2 h3 r show ?thesis by simp
qed

text \<open>
  Claim C7, as the spec states it, fails: with the composition "\<open>p\<close>, then relabelling
  by \<open>q\<close>", which sends \<open>i\<close> to \<open>q[p[i]]\<close>, the two sides differ on the graph with the
  single edge \<open>0 \<rightarrow> 1\<close>, \<open>p = [1,2,0]\<close> and \<open>q = [1,0,2]\<close>: permuting twice puts the edge
  at \<open>(2, 1)\<close>, permuting by the composition at \<open>(0, 2)\<close>.
\<close>

theorem permute_twice_counterexample:
  "bindE (permute (GraphSpace 3 Matrices) (Arr (Matrix [[0, 1, 0], [0, 0, 0], [0, 0, 0 :: int]]))
             (Perm [1, 2, 0]))
         (\<lambda>H. permute (GraphSpace 3 Matrices) (Arr H) (Perm [1, 0, 2]))
     \<noteq> permute (GraphSpace 3 Matrices) (Arr (Matrix [[0, 1, 0], [0, 0, 0], [0, 0, 0 :: int]]))
           (Perm (compose_then [1, 2, 0] [1, 0, 2]))"
  by code_simp

section \<open>Matcher names\<close>

lemma select_matcher_unknown:
  "matcher \<noteq> ''ID'' \<Longrightarrow> matcher \<noteq> ''FAQ'' \<Longrightarrow>
     select_matcher quadratic_assignment n matcher base_graph graph_to_permute = None"
  by (simp add: select_matcher_def)

text \<open>
  Claim C4, as the code has it. The code has no check of the matcher name. With a name
  other than \<open>ID\<close> and \<open>FAQ\<close> neither assignment of \<open>perm\<close> runs, and \<open>dist\<close> and
  \<open>geodesic\<close> both fail on the first read of the variable with the interpreter's
  \<open>UnboundLocalError\<close>: whatever the graphs, the solver, the total space and the metric
  are, none of them is entered, and no other matcher stands in.
\<close>

theorem unknown_matcher_fails:
  assumes "matcher \<noteq> ''ID''" and "matcher \<noteq> ''FAQ''"
  shows "dist_graphs quadratic_assignment self graph_a graph_b matcher
           = Inl (UnboundLocalError ''perm'')
       \<and> geodesic quadratic_assignment self graph_a graph_b matcher
           = Inl (UnboundLocalError ''perm'')"
  using assms by (simp add: dist_graphs_def geodesic_def select_matcher_unknown Let_def)

text \<open>Claim C4 as amended, for the matcher name \<open>HUNGARIAN\<close>.\<close>

theorem unknown_matcher_fails_witness:
  "''HUNGARIAN'' \<noteq> ''ID'' \<and> ''HUNGARIAN'' \<noteq> ''FAQ''
   \<and> dist_graphs (\<lambda>x y. Inr [0, 1])
        (GraphSpaceGeometry (GraphSpace 2 Matrices) MatricesMetric)
        (Arr (Matrix [[0, 1], [0, 0]])) (Arr (Matrix [[0, 1], [0, 0]])) ''HUNGARIAN''
       = Inl (UnboundLocalError ''perm'')
   \<and> geodesic (\<lambda>x y. Inr [0, 1])
        (GraphSpaceGeometry (GraphSpace 2 Matrices) MatricesMetric)
        (Arr (Matrix [[0, 1], [0, 0]])) (Arr (Matrix [[0, 1], [0, 0]])) ''HUNGARIAN''
       = Inl (UnboundLocalError ''perm'')"
proof -
  have h1: "''HUNGARIAN'' \<noteq> ''ID''" and h2: "''HUNGARIAN'' \<noteq> ''FAQ''"
    by simp_all
  from unknown_matcher_fails [OF h1 h2] h1 h2 show ?thesis by blast
qed

text \<open>
  Claim C4, as the spec states it, fails: what the matcher name \<open>faq\<close> raises in \<open>dist\<close>
  and in \<open>geodesic\<close> is no configuration error that names the matcher, but the error of
  the unbound variable \<open>perm\<close>.
\<close>

theorem unknown_matcher_fails_counterexample:
  "dist_graphs (\<lambda>x y. Inr [0, 1])
     (GraphSpaceGeometry (GraphSpace 2 Matrices) MatricesMetric)
     (Arr (Matrix [[0, 1], [0, 0]])) (Arr (Matrix [[0, 1], [0, 0]])) ''faq''
     = Inl (UnboundLocalError ''perm'')
   \<and> geodesic (\<lambda>x y. Inr [0, 1])
     (GraphSpaceGeometry (GraphSpace 2 Matrices) MatricesMetric)
     (Arr (Matrix [[0, 1], [0, 0]])) (Arr (Matrix [[0, 1], [0, 0]])) ''faq''
     = Inl (UnboundLocalError ''perm'')"
  by (simp add: dist_graphs_def geodesic_def select_matcher_def)

section \<open>Batches and permutations of different lengths\<close>

text \<open>
  The loop of \<open>permute\<close> walks the permutations and indexes the graphs: a position
  beyond the graphs raises, graphs beyond the permutations are never looked at.
\<close>

lemma permute_step_out_of_range:
  "length Gs \<le> i \<Longrightarrow> permute_step S Gs i item = Inl IndexError"
  by (simp add: permute_step_def getitem_def bindE_def)

lemma permute_step_take:
  "i < m \<Longrightarrow> permute_step S (take m Gs) i item = permute_step S Gs i item"
  by (simp add: permute_step_def getitem_def)

lemma permute_loop_take:
  "i + length items \<le> m \<Longrightarrow> permute_loop S (take m Gs) i items = permute_loop S Gs i items"
  by (induction items arbitrary: i) (simp_all add: permute_step_take)

lemma permute_loop_length:
  "permute_loop S Gs i items = Inr rs \<Longrightarrow> length rs = length items"
proof (induction items arbitrary: i rs)
  case Nil
  then show ?case by simp
next
  case (Cons item items)
  then show ?case
    by (auto simp: bindE_def split: sum.splits)
qed

lemma permute_loop_append:
  "permute_loop S Gs i (xs @ ys)
     = bindE (permute_loop S Gs i xs) (\<lambda>rs.
       bindE (permute_loop S Gs (i + length xs) ys) (\<lambda>rs'. Inr (rs @ rs')))"
  by (induction xs arbitrary: i) (auto simp: bindE_def split: sum.splits)

lemma permute_loop_beyond:
  "length Gs \<le> i \<Longrightarrow> items \<noteq> [] \<Longrightarrow> permute_loop S Gs i items = Inl IndexError"
  by (cases items) (simp_all add: permute_step_out_of_range bindE_def)

lemma permute_loop_long:
  assumes "length Gs < length items"
  shows "permute_loop S Gs 0 items
     = bindE (permute_loop S Gs 0 (take (length Gs) items)) (\<lambda>rs. Inl IndexError)"
proof -
  have "permute_loop S Gs 0 (take (length Gs) items @ drop (length Gs) items)
      = bindE (permute_loop S Gs 0 (take (length Gs) items)) (\<lambda>rs.
        bindE (permute_loop S Gs (0 + length (take (length Gs) items)) (drop (length Gs) items))
          (\<lambda>rs'. Inr (rs @ rs')))"
    by (rule permute_loop_append)
  moreover have "permute_loop S Gs (0 + length (take (length Gs) items)) (drop (length Gs) items)
      = Inl IndexError"
    using assms by (intro permute_loop_beyond) simp_all
  ultimately show ?thesis
    by (simp add: bindE_def split: sum.splits)
qed

lemma permute_batch_long:
  assumes "length Gs < length ps"
  shows "permute S (Arr (Batch Gs)) (Perms ps)
     = bindE (permute S (Arr (Batch Gs)) (Perms (take (length Gs) ps))) (\<lambda>r. Inl IndexError)"
proof -
  have "length Gs < length (enumerate_perm (Perms ps))"
    using assms by simp
  from permute_loop_long [OF this, of S] show ?thesis
    by (cases "permute_loop S Gs 0 (take (length Gs) (map (\<lambda>p. Item (Perm p)) ps))")
       (simp_all add: permute_def bindE_def take_map)
qed

text \<open>
  Claim C5, as the code has it. \<open>permute\<close> checks no length. Given fewer permutations
  than graphs it does exactly what it does on the first graphs alone, and a result
  gathers as many graphs as there were permutations. Given more permutations than
  graphs it first does what it does on as many permutations as there are graphs: an
  error raised there is the error of the call, and when nothing is raised there the
  call fails with the \<open>IndexError\<close> of the first position without a graph. Either way
  it fails and returns nothing.
\<close>

theorem permute_length_mismatch:
  shows "(length ps < length Gs \<longrightarrow>
            permute S (Arr (Batch Gs)) (Perms ps)
              = permute S (Arr (Batch (take (length ps) Gs))) (Perms ps)
          \<and> (\<forall>r. permute S (Arr (Batch Gs)) (Perms ps) = Inr r \<longrightarrow>
                 (\<exists>rs. r = gs_array rs \<and> length rs = length ps)))
       \<and> (length Gs < length ps \<longrightarrow>
            permute S (Arr (Batch Gs)) (Perms ps)
              = bindE (permute S (Arr (Batch Gs)) (Perms (take (length Gs) ps)))
                  (\<lambda>r. Inl IndexError)
          \<and> (\<exists>e. permute S (Arr (Batch Gs)) (Perms ps) = Inl e)
          \<and> ((\<exists>r. permute S (Arr (Batch Gs)) (Perms (take (length Gs) ps)) = Inr r) \<longrightarrow>
                 permute S (Arr (Batch Gs)) (Perms ps) = Inl IndexError))"
proof (intro conjI impI allI)
  assume "length ps < length Gs"
  then show "permute S (Arr (Batch Gs)) (Perms ps)
      = permute S (Arr (Batch (take (length ps) Gs))) (Perms ps)"
    by (simp add: permute_def permute_loop_take)
next
  fix r
  assume "permute S (Arr (Batch Gs)) (Perms ps) = Inr r"
  then obtain rs where "permute_loop S Gs 0 (enumerate_perm (Perms ps)) = Inr rs"
    and "r = gs_array rs"
    by (auto simp: permute_def bindE_def split: sum.splits)
  then have "r = gs_array rs \<and> length rs = length ps"
    using permute_loop_length [of S Gs 0 "enumerate_perm (Perms ps)" rs] by simp
  then show "\<exists>rs. r = gs_array rs \<and> length rs = length ps" ..
next
  assume "length Gs < length ps"
  then show "permute S (Arr (Batch Gs)) (Perms ps)
      = bindE (permute S (Arr (Batch Gs)) (Perms (take (length Gs) ps))) (\<lambda>r. Inl IndexError)"
    by (rule permute_batch_long)
next
  assume "length Gs < length ps"
  then show "\<exists>e. permute S (Arr (Batch Gs)) (Perms ps) = Inl e"
    by (cases "permute S (Arr (Batch Gs)) (Perms (take (length Gs) ps))")
       (simp_all add: permute_batch_long bindE_def)
next
  assume "length Gs < length ps"
    and "\<exists>r. permute S (Arr (Batch Gs)) (Perms (take (length Gs) ps)) = Inr r"
  then show "permute S (Arr (Batch Gs)) (Perms ps) = Inl IndexError"
    by (auto simp: permute_batch_long bindE_def)
qed

text \<open>
  Claim C5 as amended: one permutation for two graphs; two permutations for one graph,
  the first of them applicable; and two permutations for one graph, the first of them
  with an entry that is no node, whose error is the error of the call.
\<close>

theorem permute_length_mismatch_witness:
  "permute (GraphSpace 2 Matrices) (Arr (Batch [[[1, 2], [3, 4 :: int]], [[5, 6], [7, 8]]])) (Perms [[1, 0]])
     = permute (GraphSpace 2 Matrices) (Arr (Batch [[[1, 2], [3, 4]]])) (Perms [[1, 0]])
   \<and> permute (GraphSpace 2 Matrices) (Arr (Batch [[[1, 2], [3, 4 :: int]]])) (Perms [[1, 0], [0, 1]])
     = Inl IndexError
   \<and> permute (GraphSpace 2 Matrices) (Arr (Batch [[[1, 2], [3, 4 :: int]]])) (Perms [[2, 0], [0, 1]])
     = Inl (ValueError ''array_from_sparse: index exceeds target shape'')"
proof -
  let ?S = "GraphSpace 2 Matrices :: int graph_space"
  let ?G = "[[1, 2], [3, 4 :: int]]"
  have short: "length [[1, 0 :: nat]] < length [?G, [[5, 6], [7, 8]]]"
    by simp
  have long: "length [?G] < length [[1, 0 :: nat], [0, 1]]"
    by simp
  have long': "length [?G] < length [[2, 0 :: nat], [0, 1]]"
    by simp
  have first: "permute ?S (Arr (Batch [?G])) (Perms (take (length [?G]) [[1, 0], [0, 1]]))
      = Inr (Batch [[[4, 3], [2, 1]]])"
    by code_simp
  have first': "permute ?S (Arr (Batch [?G])) (Perms (take (length [?G]) [[2, 0], [0, 1]]))
      = Inl (ValueError ''array_from_sparse: index exceeds target shape'')"
    by code_simp
  from permute_length_mismatch [of "[[1, 0]]" "[?G, [[5, 6], [7, 8]]]" ?S] short
  have a: "permute ?S (Arr (Batch [?G, [[5, 6], [7, 8]]])) (Perms [[1, 0]])
      = permute ?S (Arr (Batch [?G])) (Perms [[1, 0]])"
    by simp
  from permute_length_mismatch [of "[[1, 0], [0, 1]]" "[?G]" ?S] long
  have "permute ?S (Arr (Batch [?G])) (Perms [[1, 0], [0, 1]])
      = bindE (permute ?S (Arr (Batch [?G])) (Perms (take (length [?G]) [[1, 0], [0, 1]])))
          (\<lambda>r. Inl IndexError)"
    by blast
  then have b: "permute ?S (Arr (Batch [?G])) (Perms [[1, 0], [0, 1]]) = Inl IndexError"
    unfolding first by (simp add: bindE_def)
  from permute_length_mismatch [of "[[2, 0], [0, 1]]" "[?G]" ?S] long'
  have "permute ?S (Arr (Batch [?G])) (Perms [[2, 0], [0, 1]])
      = bindE (permute ?S (Arr (Batch [?G])) (Perms (take (length [?G]) [[2, 0], [0, 1]])))
          (\<lambda>r. Inl IndexError)"
    by blast
  then have c: "permute ?S (Arr (Batch [?G])) (Perms [[2, 0], [0, 1]])
      = Inl (ValueError ''array_from_sparse: index exceeds target shape'')"
    unfolding first' by (simp add: bindE_def)
  from a b c show ?thesis by blast
qed

text \<open>
  Claim C5, as the spec states it, fails: two graphs and one permutation raise nothing;
  the result is the batch of the first graph permuted.
\<close>

theorem permute_length_mismatch_counterexample:
  "permute (GraphSpace 2 Matrices) (Arr (Batch [[[1, 2], [3, 4 :: int]], [[5, 6], [7, 8]]])) (Perms [[1, 0]])
     = Inr (Batch [[[4, 3], [2, 1]]])"
  by code_simp

section \<open>Distances and geodesics\<close>

text \<open>The Frobenius distance of a matrix to itself, and the fields of a geometry.\<close>

lemma frobenius_dist_self: "frobenius_dist G G = Inr 0"
proof -
  have "sum_list (map (\<lambda>(x, y). (x - y)\<^sup>2) (zip row row)) = 0" for row :: "real list"
    by (induction row) simp_all
  then have "sum_list (map (\<lambda>(ra, rb). sum_list (map (\<lambda>(x, y). (x - y)\<^sup>2) (zip ra rb))) (zip G G)) = 0"
    by (induction G) simp_all
  then show ?thesis by (simp add: frobenius_dist_def)
qed

lemma GraphSpaceGeometry_simps:
  "space (GraphSpaceGeometry S cls) = S"
  "total_space_metric (GraphSpaceGeometry S cls) = cls (nodes S) (nodes S)"
  by (simp_all add: GraphSpaceGeometry_def)

lemma MatricesMetric_simps:
  "metric_dist (MatricesMetric m n) = MatricesMetric_dist"
  "metric_geodesic (MatricesMetric m n) = (\<lambda>a b. Inr (Geodesic a b))"
  by (simp_all add: MatricesMetric_def)

lemma select_matcher_ID:
  "select_matcher qa n ''ID'' base obj = Some (id_matching n base obj)"
  by (simp add: select_matcher_def)

lemma select_matcher_FAQ:
  "select_matcher qa n ''FAQ'' base obj = Some (faq_matching qa base obj)"
  by (simp add: select_matcher_def)

text \<open>
  Claim C8. For a graph whose adjacency matrix has the shape \<open>(nodes, nodes)\<close> of the
  space, the distance to itself under the identity matcher is \<open>0\<close>: the matcher returns
  the identity ordering, conjugation by the identity matrix returns the entries of
  the graph, and the Frobenius distance of equal matrices is zero.
\<close>

theorem dist_self_zero:
  assumes "is_matrix n n G"
  shows "dist_graphs quadratic_assignment
           (GraphSpaceGeometry (GraphSpace n Matrices) MatricesMetric)
           (Arr (Matrix G)) (Arr (Matrix G)) ''ID'' = Inr (Scalar 0)"
proof -
  have match: "id_matching n (Matrix G) (Matrix G) = Inr (Perm [0..<n])"
    by (simp add: id_matching_def)
  have perm: "permute (GraphSpace n Matrices) (Arr (Matrix G)) (Perm [0..<n]) = Inr (Matrix G)"
    using assms by (rule permute_identity_value)
  show ?thesis
    by (simp add: dist_graphs_def select_matcher_ID GraphSpaceGeometry_simps
        GraphSpace_Matrices_simps MatricesMetric_simps match perm bindE_def frobenius_dist_self)
qed

text \<open>Claim C8 on a graph with two nodes.\<close>

theorem dist_self_zero_witness:
  "is_matrix 2 2 [[0, 1], [0, 0 :: real]]
   \<and> dist_graphs (\<lambda>x y. Inr [0, 1])
        (GraphSpaceGeometry (GraphSpace 2 Matrices) MatricesMetric)
        (Arr (Matrix [[0, 1], [0, 0]])) (Arr (Matrix [[0, 1], [0, 0]])) ''ID'' = Inr (Scalar 0)"
proof -
  have h: "is_matrix 2 2 [[0, 1], [0, 0 :: real]]"
    by (simp add: is_matrix_def)
  from dist_self_zero [OF h] h show ?thesis by blast
qed

text \<open>
  \<open>geodesic\<close> and \<open>dist\<close> in terms of the alignment procedure, and the ranks for which
  \<open>dist\<close> exchanges its arguments.
\<close>

lemma geodesic_alignment_eq:
  "geodesic qa Geo (Arr base) (Arr e) m
     = bindE (alignment qa (space Geo) m base e) (metric_geodesic (total_space_metric Geo) base)"
  by (cases "select_matcher qa (nodes (space Geo)) m base e")
     (auto simp: geodesic_def alignment_def bindE_def split: sum.splits)

lemma dist_alignment_eq:
  "dist_graphs qa Geo (Arr a) (Arr b) m
     = (if ndim a > ndim b
        then bindE (alignment qa (space Geo) m b a) (metric_dist (total_space_metric Geo) b)
        else bindE (alignment qa (space Geo) m a b) (metric_dist (total_space_metric Geo) a))"
  by (cases "select_matcher qa (nodes (space Geo)) m b a";
      cases "select_matcher qa (nodes (space Geo)) m a b")
     (auto simp: dist_graphs_def alignment_def bindE_def Let_def split: sum.splits)

lemma id_matching_rank:
  "ndim base_graph > ndim graph_to_permute \<Longrightarrow>
     id_matching n base_graph graph_to_permute
       = Inl (ValueError (''The method can align a set of graphs to one graphs,'' @
                          ''but the single graphs should be passed as base_graph''))"
  by (cases base_graph; cases graph_to_permute) (simp_all add: id_matching_def)

lemma faq_matching_rank:
  "ndim base_graph > ndim graph_to_permute \<Longrightarrow>
     faq_matching qa base_graph graph_to_permute
       = Inl (ValueError
           ''Align a set of graphs to one graphs,Pass the single graphs as base_graph'')"
  by (cases base_graph; cases graph_to_permute) simp_all

text \<open>
  Claim C2, as the code has it. \<open>geodesic\<close> matches, permutes and hands the result to
  the geodesic of the total-space metric as \<open>dist\<close> hands it to the distance, but it
  never exchanges its arguments: the base point is always the base of the alignment
  and the end point is always the graph permuted. For a base of rank not above the
  end point's the two methods align the same pair. For a batched base and a single end
  point \<open>dist\<close> aligns the pair exchanged, while in \<open>geodesic\<close> the matcher raises its
  usage error: nothing is broadcast.
\<close>

theorem geodesic_keeps_base:
  "geodesic qa Geo (Arr base_point) (Arr end_point) matcher
     = bindE (alignment qa (space Geo) matcher base_point end_point)
         (metric_geodesic (total_space_metric Geo) base_point)
   \<and> (ndim base_point \<le> ndim end_point \<longrightarrow>
        dist_graphs qa Geo (Arr base_point) (Arr end_point) matcher
          = bindE (alignment qa (space Geo) matcher base_point end_point)
              (metric_dist (total_space_metric Geo) base_point))
   \<and> (ndim base_point > ndim end_point \<longrightarrow>
        dist_graphs qa Geo (Arr base_point) (Arr end_point) matcher
          = bindE (alignment qa (space Geo) matcher end_point base_point)
              (metric_dist (total_space_metric Geo) end_point))
   \<and> (ndim base_point > ndim end_point \<and> matcher = ''ID'' \<longrightarrow>
        geodesic qa Geo (Arr base_point) (Arr end_point) matcher
          = Inl (ValueError (''The method can align a set of graphs to one graphs,'' @
                             ''but the single graphs should be passed as base_graph'')))
   \<and> (ndim base_point > ndim end_point \<and> matcher = ''FAQ'' \<longrightarrow>
        geodesic qa Geo (Arr base_point) (Arr end_point) matcher
          = Inl (ValueError
              ''Align a set of graphs to one graphs,Pass the single graphs as base_graph''))"
proof (intro conjI impI)
  show "geodesic qa Geo (Arr base_point) (Arr end_point) matcher
     = bindE (alignment qa (space Geo) matcher base_point end_point)
         (metric_geodesic (total_space_metric Geo) base_point)"
    by (rule geodesic_alignment_eq)
next
  assume "ndim base_point \<le> ndim end_point"
  then show "dist_graphs qa Geo (Arr base_point) (Arr end_point) matcher
          = bindE (alignment qa (space Geo) matcher base_point end_point)
              (metric_dist (total_space_metric Geo) base_point)"
    by (simp add: dist_alignment_eq)
next
  assume "ndim base_point > ndim end_point"
  then show "dist_graphs qa Geo (Arr base_point) (Arr end_point) matcher
          = bindE (alignment qa (space Geo) matcher end_point base_point)
              (metric_dist (total_space_metric Geo) end_point)"
    by (simp add: dist_alignment_eq)
next
  assume "ndim base_point > ndim end_point \<and> matcher = ''ID''"
  then show "geodesic qa Geo (Arr base_point) (Arr end_point) matcher
          = Inl (ValueError (''The method can align a set of graphs to one graphs,'' @
                             ''but the single graphs should be passed as base_graph''))"
    by (simp add: geodesic_def select_matcher_ID id_matching_rank bindE_def)
next
  assume "ndim base_point > ndim end_point \<and> matcher = ''FAQ''"
  then show "geodesic qa Geo (Arr base_point) (Arr end_point) matcher
          = Inl (ValueError
              ''Align a set of graphs to one graphs,Pass the single graphs as base_graph'')"
    by (simp add: geodesic_def select_matcher_FAQ faq_matching_rank bindE_def)
qed


lemma permute_batch_example:
  "permute (GraphSpace 2 Matrices) (Arr (Batch [[[0, 1], [0, 0 :: real]]])) (Perms [[0, 1]])
     = Inr (Batch [[[0, 1], [0, 0]]])"
  by code_simp

text \<open>
  Claim C2, as the spec states it, fails: on a batch of one graph as base point and a
  single graph as end point \<open>geodesic\<close> raises the usage error of the matcher, where
  \<open>dist\<close> returns the vector of distances.
\<close>

theorem geodesic_keeps_base_counterexample:
  "geodesic (\<lambda>x y. Inr [0, 1]) (GraphSpaceGeometry (GraphSpace 2 Matrices) MatricesMetric)
     (Arr (Batch [[[0, 1], [0, 0]]])) (Arr (Matrix [[0, 1], [0, 0]])) ''ID''
     = Inl (ValueError (''The method can align a set of graphs to one graphs,'' @
                        ''but the single graphs should be passed as base_graph''))
   \<and> dist_graphs (\<lambda>x y. Inr [0, 1]) (GraphSpaceGeometry (GraphSpace 2 Matrices) MatricesMetric)
     (Arr (Batch [[[0, 1], [0, 0]]])) (Arr (Matrix [[0, 1], [0, 0]])) ''ID''
     = Inr (Vector [0])"
proof -
  have match: "id_matching 2 (Matrix [[0, 1], [0, 0 :: real]]) (Batch [[[0, 1], [0, 0]]])
      = Inr (Perms [[0, 1]])"
    by (simp add: id_matching_def upt_rec)
  have fails: "id_matching 2 (Batch [[[0, 1], [0, 0 :: real]]]) (Matrix [[0, 1], [0, 0]])
      = Inl (ValueError (''The method can align a set of graphs to one graphs,'' @
                         ''but the single graphs should be passed as base_graph''))"
    by (simp add: id_matching_def)
  show ?thesis
    by (simp add: geodesic_def dist_graphs_def select_matcher_ID GraphSpaceGeometry_simps
        GraphSpace_Matrices_simps MatricesMetric_simps match fails permute_batch_example
        bindE_def frobenius_dist_self del: One_nat_def)
qed

text \<open>
  Claim C2 as amended: a single base point with a batch of one graph, and a batched
  base point with a single end point under the matcher \<open>FAQ\<close>.
\<close>

theorem geodesic_keeps_base_witness:
  "ndim (Matrix [[0, 1], [0, 0 :: real]]) \<le> ndim (Batch [[[0, 1], [0, 0 :: real]]])
   \<and> geodesic (\<lambda>x y. Inr [0, 1]) (GraphSpaceGeometry (GraphSpace 2 Matrices) MatricesMetric)
        (Arr (Matrix [[0, 1], [0, 0]])) (Arr (Batch [[[0, 1], [0, 0]]])) ''ID''
       = Inr (Geodesic (Matrix [[0, 1], [0, 0]]) (Batch [[[0, 1], [0, 0]]]))
   \<and> dist_graphs (\<lambda>x y. Inr [0, 1]) (GraphSpaceGeometry (GraphSpace 2 Matrices) MatricesMetric)
        (Arr (Matrix [[0, 1], [0, 0]])) (Arr (Batch [[[0, 1], [0, 0]]])) ''ID''
       = Inr (Vector [0])
   \<and> ndim (Batch [[[0, 1], [0, 0 :: real]]]) > ndim (Matrix [[0, 1], [0, 0 :: real]])
   \<and> geodesic (\<lambda>x y. Inr [0, 1]) (GraphSpaceGeometry (GraphSpace 2 Matrices) MatricesMetric)
        (Arr (Batch [[[0, 1], [0, 0]]])) (Arr (Matrix [[0, 1], [0, 0]])) ''FAQ''
       = Inl (ValueError
           ''Align a set of graphs to one graphs,Pass the single graphs as base_graph'')"
proof -
  let ?qa = "\<lambda>x y :: real matrix. Inr [0, 1 :: nat] :: error + nat list"
  let ?Geo = "GraphSpaceGeometry (GraphSpace 2 Matrices) MatricesMetric"
  let ?G = "[[0, 1], [0, 0 :: real]]"
  have low: "ndim (Matrix ?G) \<le> ndim (Batch [?G])" by simp
  have high: "ndim (Batch [?G]) > ndim (Matrix ?G)" by simp
  have match: "id_matching 2 (Matrix ?G) (Batch [?G]) = Inr (Perms [[0, 1]])"
    by (simp add: id_matching_def upt_rec)
  have aligned: "alignment ?qa (GraphSpace 2 Matrices) ''ID'' (Matrix ?G) (Batch [?G])
      = Inr (Batch [?G])"
    by (simp add: alignment_def select_matcher_ID GraphSpace_Matrices_simps match
        permute_batch_example bindE_def del: One_nat_def)
  have sp: "space ?Geo = GraphSpace 2 Matrices"
    and md: "metric_dist (total_space_metric ?Geo) = MatricesMetric_dist"
    and mg: "metric_geodesic (total_space_metric ?Geo) = (\<lambda>a b. Inr (Geodesic a b))"
    by (simp_all add: GraphSpaceGeometry_simps MatricesMetric_simps)
  note inst1 = geodesic_keeps_base [of ?qa ?Geo "Matrix ?G" "Batch [?G]" "''ID''"]
  note inst2 = geodesic_keeps_base [of ?qa ?Geo "Batch [?G]" "Matrix ?G" "''FAQ''"]
  from inst1 have "geodesic ?qa ?Geo (Arr (Matrix ?G)) (Arr (Batch [?G])) ''ID''
      = bindE (alignment ?qa (space ?Geo) ''ID'' (Matrix ?G) (Batch [?G]))
          (metric_geodesic (total_space_metric ?Geo) (Matrix ?G))"
    by (rule conjunct1)
  then have g1: "geodesic ?qa ?Geo (Arr (Matrix ?G)) (Arr (Batch [?G])) ''ID''
      = Inr (Geodesic (Matrix ?G) (Batch [?G]))"
    unfolding sp mg aligned by (simp add: bindE_def)
  from inst1 low have "dist_graphs ?qa ?Geo (Arr (Matrix ?G)) (Arr (Batch [?G])) ''ID''
      = bindE (alignment ?qa (space ?Geo) ''ID'' (Matrix ?G) (Batch [?G]))
          (metric_dist (total_space_metric ?Geo) (Matrix ?G))"
    by blast
  then have d1: "dist_graphs ?qa ?Geo (Arr (Matrix ?G)) (Arr (Batch [?G])) ''ID''
      = Inr (Vector [0])"
    unfolding sp md aligned by (simp add: bindE_def frobenius_dist_self)
  from inst2 high have g2: "geodesic ?qa ?Geo (Arr (Batch [?G])) (Arr (Matrix ?G)) ''FAQ''
      = Inl (ValueError
          ''Align a set of graphs to one graphs,Pass the single graphs as base_graph'')"
    by blast
  from low high g1 d1 g2 show ?thesis by blast
qed

section \<open>A single graph against a batch\<close>

























end
